theory Spec2Isabelle
  imports Main
begin

section \<open>The cluster provider of the explorer (src/providers/cluster.tsx)\<close>

subsection \<open>Data model\<close>

text \<open>The two enums of the module, in the order the source declares them.\<close>

datatype ClusterStatus = Connected | Connecting | Failure

datatype Cluster = MainnetBeta | Testnet | Custom

text \<open>
  \<^verbatim>\<open>interface ClusterInfo\<close>. The types \<^verbatim>\<open>EpochSchedule\<close> and \<^verbatim>\<open>EpochInfo\<close> belong to the
  RPC client library; the module only stores their values, so they are type parameters
  \<open>'es\<close> and \<open>'ei\<close>. The block number is a JavaScript number that is only stored, never
  computed with.
\<close>

record ('es, 'ei) ClusterInfo =
  firstAvailableBlock :: int
  epochSchedule :: 'es
  epochInfo :: 'ei
  genesisHash :: string

text \<open>
  \<^verbatim>\<open>interface State\<close>; the optional field \<^verbatim>\<open>clusterInfo?\<close> is an option. An action is a
  state (\<^verbatim>\<open>type Action = State\<close>).
\<close>

record ('es, 'ei) State =
  cluster :: Cluster
  customUrl :: string
  clusterInfo :: "('es, 'ei) ClusterInfo option"
  status :: ClusterStatus

type_synonym ('es, 'ei) Action = "('es, 'ei) State"

subsection \<open>The reducer\<close>

text \<open>
  \<^verbatim>\<open>clusterReducer\<close>: the cases \<^verbatim>\<open>Connected\<close> and \<^verbatim>\<open>Failure\<close> share one body (the first
  falls through to the second); \<^verbatim>\<open>!==\<close> on enum members and on strings compares values.
\<close>

definition clusterReducer :: "('es, 'ei) State \<Rightarrow> ('es, 'ei) Action \<Rightarrow> ('es, 'ei) State" where
  "clusterReducer state action =
     (case status action of
        Connected \<Rightarrow>
          if cluster state \<noteq> cluster action \<or> customUrl state \<noteq> customUrl action
          then state else action
      | Failure \<Rightarrow>
          if cluster state \<noteq> cluster action \<or> customUrl state \<noteq> customUrl action
          then state else action
      | Connecting \<Rightarrow> action)"

subsection \<open>URL resolution\<close>

definition MAINNET_URL :: string where
  "MAINNET_URL = ''https://api-mainnet.bbachain.com''"

definition TESTNET_URL :: string where
  "TESTNET_URL = ''https://api-testnet.bbachain.com''"

text \<open>
  What \<^verbatim>\<open>clusterUrl\<close> reads from its surroundings: \<^verbatim>\<open>window.location.hostname\<close> and the
  two build-time variables of \<^verbatim>\<open>process.env\<close>, \<open>None\<close> when a variable is undefined.
\<close>

record Env =
  hostname :: string
  REACT_APP_MAINNET_RPC_URL :: "string option"
  REACT_APP_TESTNET_RPC_URL :: "string option"

text \<open>
  \<^verbatim>\<open>String.prototype.replace\<close> called with a string pattern: the first occurrence of the
  pattern, searched from the left, is replaced, and a string without the pattern is
  returned as it is. The replacement patterns that start with a dollar sign are not
  modelled; the only replacement the module passes, \<^verbatim>\<open>"explorer-api"\<close>, has none.
\<close>

fun js_replace :: "string \<Rightarrow> string \<Rightarrow> string \<Rightarrow> string" where
  "js_replace pat rep s =
     (if take (length pat) s = pat then rep @ drop (length pat) s
      else case s of [] \<Rightarrow> [] | c # cs \<Rightarrow> c # js_replace pat rep cs)"

text \<open>The local closure \<^verbatim>\<open>modifyUrl\<close> of \<^verbatim>\<open>clusterUrl\<close>.\<close>

definition modifyUrl :: "Env \<Rightarrow> string \<Rightarrow> string" where
  "modifyUrl env url =
     (if hostname env = ''localhost'' then url
      else js_replace ''api'' ''explorer-api'' url)"

text \<open>\<^verbatim>\<open>a ?? b\<close> is \<^verbatim>\<open>b\<close> exactly when \<^verbatim>\<open>a\<close> is undefined (or null).\<close>

definition clusterUrl :: "Env \<Rightarrow> Cluster \<Rightarrow> string \<Rightarrow> string" where
  "clusterUrl env c u =
     (case c of
        MainnetBeta \<Rightarrow>
          (case REACT_APP_MAINNET_RPC_URL env of
             Some v \<Rightarrow> v | None \<Rightarrow> modifyUrl env MAINNET_URL)
      | Testnet \<Rightarrow>
          (case REACT_APP_TESTNET_RPC_URL env of
             Some v \<Rightarrow> v | None \<Rightarrow> modifyUrl env TESTNET_URL)
      | Custom \<Rightarrow> u)"

subsection \<open>The connect operation\<close>

text \<open>
  \<^verbatim>\<open>updateCluster\<close> is an async function whose effects are calls: to \<^verbatim>\<open>dispatch\<close>, to the
  constructor and the four fetch methods of the RPC client, and to \<^verbatim>\<open>reportError\<close>. The
  model returns the calls in the order the function makes them. \<open>Await\<close> marks the one
  point where the function suspends (\<^verbatim>\<open>await Promise.all\<close>): the calls before it are
  made synchronously in the call of \<^verbatim>\<open>updateCluster\<close>, the calls after it once the
  joint promise has settled.
\<close>

datatype Rpc = GetFirstAvailableBlock | GetEpochSchedule | GetEpochInfo | GetGenesisHash

text \<open>
  What the \<^verbatim>\<open>catch\<close> block can receive: the exception of \<^verbatim>\<open>new URL\<close>, an exception of
  the client's constructor, or the rejection of the joint promise.
\<close>

datatype error = InvalidUrl | ConnectionError | FetchRejected

datatype ('es, 'ei) Event =
    Dispatch "('es, 'ei) Action"
  | NewConnection string
  | Fetch string Rpc
  | Await
  | ReportError error string

text \<open>
  The collaborators, none of which is code of the module: whether \<^verbatim>\<open>new URL(s)\<close> returns
  (\<open>validURL\<close>) or throws, whether the client's constructor returns for an endpoint, and
  what each of the four promises of a client for that endpoint settles to (\<open>None\<close> for a
  rejection).
\<close>

record ('es, 'ei) World =
  env :: Env
  validURL :: "string \<Rightarrow> bool"
  connectionOk :: "string \<Rightarrow> bool"
  getFirstAvailableBlock :: "string \<Rightarrow> int option"
  getEpochSchedule :: "string \<Rightarrow> 'es option"
  getEpochInfo :: "string \<Rightarrow> 'ei option"
  getGenesisHash :: "string \<Rightarrow> string option"

text \<open>
  \<^verbatim>\<open>Promise.all\<close> over the four promises: fulfilled with the four values when all four
  are fulfilled, rejected as soon as one is rejected.
\<close>

definition promiseAll ::
  "('es, 'ei) World \<Rightarrow> string \<Rightarrow> error + ('es, 'ei) ClusterInfo" where
  "promiseAll w endpoint =
     (case getFirstAvailableBlock w endpoint of
        None \<Rightarrow> Inl FetchRejected
      | Some fab \<Rightarrow>
     (case getEpochSchedule w endpoint of
        None \<Rightarrow> Inl FetchRejected
      | Some es \<Rightarrow>
     (case getEpochInfo w endpoint of
        None \<Rightarrow> Inl FetchRejected
      | Some ei \<Rightarrow>
     (case getGenesisHash w endpoint of
        None \<Rightarrow> Inl FetchRejected
      | Some gh \<Rightarrow>
          Inr \<lparr>firstAvailableBlock = fab, epochSchedule = es,
               epochInfo = ei, genesisHash = gh\<rparr>))))"

text \<open>
  The body of the \<^verbatim>\<open>try\<close> block up to the \<^verbatim>\<open>await\<close>: the calls it makes, and the
  exception or the values it continues with. \<open>NewConnection\<close> records the call of the
  constructor, also when the constructor throws. The four fetch methods are called one
  after the other while the array literal is evaluated, before anything is awaited.
\<close>

definition tryBlock ::
  "('es, 'ei) World \<Rightarrow> Cluster \<Rightarrow> string \<Rightarrow>
     ('es, 'ei) Event list \<times> (error + ('es, 'ei) ClusterInfo)" where
  "tryBlock w c u =
     (if \<not> validURL w u then ([], Inl InvalidUrl)
      else let endpoint = clusterUrl (env w) c u in
        if \<not> connectionOk w endpoint then ([NewConnection endpoint], Inl ConnectionError)
        else
          ([NewConnection endpoint,
            Fetch endpoint GetFirstAvailableBlock,
            Fetch endpoint GetEpochSchedule,
            Fetch endpoint GetEpochInfo,
            Fetch endpoint GetGenesisHash,
            Await],
           promiseAll w endpoint))"

text \<open>The \<^verbatim>\<open>catch\<close> block.\<close>

definition catchBlock ::
  "('es, 'ei) World \<Rightarrow> Cluster \<Rightarrow> string \<Rightarrow> error \<Rightarrow> ('es, 'ei) Event list" where
  "catchBlock w c u e =
     (if c \<noteq> Custom then [ReportError e (clusterUrl (env w) c u)] else []) @
     [Dispatch \<lparr>cluster = c, customUrl = u, clusterInfo = None, status = Failure\<rparr>]"

definition updateCluster ::
  "('es, 'ei) World \<Rightarrow> Cluster \<Rightarrow> string \<Rightarrow> ('es, 'ei) Event list" where
  "updateCluster w c u =
     Dispatch \<lparr>cluster = c, customUrl = u, clusterInfo = None, status = Connecting\<rparr> #
     (case tryBlock w c u of
        (calls, Inr info) \<Rightarrow>
          calls @
          [Dispatch \<lparr>cluster = c, customUrl = u, clusterInfo = Some info,
                    status = Connected\<rparr>]
      | (calls, Inl e) \<Rightarrow> calls @ catchBlock w c u e)"

subsection \<open>The provider: initial state and the states it can reach\<close>

definition DEFAULT_CLUSTER :: Cluster where
  "DEFAULT_CLUSTER = MainnetBeta"

definition DEFAULT_CUSTOM_URL :: string where
  "DEFAULT_CUSTOM_URL = ''http://localhost:8899''"

text \<open>The second argument of \<^verbatim>\<open>React.useReducer\<close> in \<^verbatim>\<open>ClusterProvider\<close>.\<close>

definition initialState :: "('es, 'ei) State" where
  "initialState =
     \<lparr>cluster = DEFAULT_CLUSTER, customUrl = DEFAULT_CUSTOM_URL,
      clusterInfo = None, status = Connecting\<rparr>"

text \<open>The actions a list of calls hands to \<^verbatim>\<open>dispatch\<close>, in order.\<close>

fun dispatched :: "('es, 'ei) Event list \<Rightarrow> ('es, 'ei) Action list" where
  "dispatched [] = []"
| "dispatched (Dispatch a # evs) = a # dispatched evs"
| "dispatched (NewConnection _ # evs) = dispatched evs"
| "dispatched (Fetch _ _ # evs) = dispatched evs"
| "dispatched (Await # evs) = dispatched evs"
| "dispatched (ReportError _ _ # evs) = dispatched evs"

text \<open>The calls that reach the RPC client: its constructor and its four fetches.\<close>

fun isNetworkCall :: "('es, 'ei) Event \<Rightarrow> bool" where
  "isNetworkCall (Dispatch _) = False"
| "isNetworkCall (NewConnection _) = True"
| "isNetworkCall (Fetch _ _) = True"
| "isNetworkCall Await = False"
| "isNetworkCall (ReportError _ _) = False"

text \<open>The calls of the error-reporting collaborator.\<close>

fun isReport :: "('es, 'ei) Event \<Rightarrow> bool" where
  "isReport (Dispatch _) = False"
| "isReport (NewConnection _) = False"
| "isReport (Fetch _ _) = False"
| "isReport Await = False"
| "isReport (ReportError _ _) = True"

text \<open>
  The dispatch function reaches no code but \<^verbatim>\<open>updateCluster\<close> (the provider's effect and
  \<^verbatim>\<open>useUpdateCustomUrl\<close> both call it, and the context that holds it is not exported), and
  React applies the reducer to the dispatched actions one at a time. Connect attempts
  overlap, so the actions of different attempts reach the reducer in any interleaving:
  a reachable state is the initial state, or the reducer's result on a reachable state
  and an action that some attempt dispatches.
\<close>

inductive reachable :: "('es, 'ei) State \<Rightarrow> bool" where
  init: "reachable initialState"
| step: "reachable s \<Longrightarrow> a \<in> set (dispatched (updateCluster w c u))
           \<Longrightarrow> reachable (clusterReducer s a)"

subsection \<open>A concrete world\<close>

text \<open>
  A deployment on a public host with no endpoint override, where only the default
  custom URL parses, every client can be constructed, and the testnet endpoint rejects
  the epoch-info request.
\<close>

definition sampleEnv :: Env where
  "sampleEnv =
     \<lparr>hostname = ''explorer.bbachain.com'', REACT_APP_MAINNET_RPC_URL = None,
      REACT_APP_TESTNET_RPC_URL = None\<rparr>"

definition sampleWorld :: "(nat, nat) World" where
  "sampleWorld =
     \<lparr>env = sampleEnv,
      validURL = (\<lambda>s. s = ''http://localhost:8899''),
      connectionOk = (\<lambda>s. True),
      getFirstAvailableBlock = (\<lambda>s. Some 0),
      getEpochSchedule = (\<lambda>s. Some 1),
      getEpochInfo =
        (\<lambda>s. if s = ''https://explorer-api-testnet.bbachain.com'' then None else Some 2),
      getGenesisHash = (\<lambda>s. Some ''abc'')\<rparr>"

section \<open>Properties\<close>

subsection \<open>Auxiliary facts\<close>

lemma clusterReducer_cases: "clusterReducer s a = s \<or> clusterReducer s a = a"
  by (simp add: clusterReducer_def split: ClusterStatus.split)

lemma clusterReducer_Connecting: "status a = Connecting \<Longrightarrow> clusterReducer s a = a"
  by (simp add: clusterReducer_def)

lemma clusterReducer_result:
  "status a \<noteq> Connecting \<Longrightarrow>
     clusterReducer s a =
       (if cluster s = cluster a \<and> customUrl s = customUrl a then a else s)"
  by (cases "status a") (simp_all add: clusterReducer_def)

lemma modifyUrl_MAINNET:
  "modifyUrl e MAINNET_URL =
     (if hostname e = ''localhost'' then ''https://api-mainnet.bbachain.com''
      else ''https://explorer-api-mainnet.bbachain.com'')"
  by (simp add: modifyUrl_def MAINNET_URL_def)

lemma modifyUrl_TESTNET:
  "modifyUrl e TESTNET_URL =
     (if hostname e = ''localhost'' then ''https://api-testnet.bbachain.com''
      else ''https://explorer-api-testnet.bbachain.com'')"
  by (simp add: modifyUrl_def TESTNET_URL_def)

lemma promiseAll_Inr:
  "getFirstAvailableBlock w ep = Some fab \<Longrightarrow> getEpochSchedule w ep = Some es \<Longrightarrow>
   getEpochInfo w ep = Some ei \<Longrightarrow> getGenesisHash w ep = Some gh \<Longrightarrow>
   promiseAll w ep =
     Inr \<lparr>firstAvailableBlock = fab, epochSchedule = es, epochInfo = ei, genesisHash = gh\<rparr>"
  by (simp add: promiseAll_def)

lemma promiseAll_Inl:
  "getFirstAvailableBlock w ep = None \<or> getEpochSchedule w ep = None \<or>
   getEpochInfo w ep = None \<or> getGenesisHash w ep = None \<Longrightarrow>
   promiseAll w ep = Inl FetchRejected"
  by (auto simp add: promiseAll_def split: option.splits)

lemma updateCluster_invalid:
  "\<not> validURL w u \<Longrightarrow>
   updateCluster w c u =
     Dispatch \<lparr>cluster = c, customUrl = u, clusterInfo = None, status = Connecting\<rparr> #
     catchBlock w c u InvalidUrl"
  by (simp add: updateCluster_def tryBlock_def)

lemma updateCluster_no_connection:
  "validURL w u \<Longrightarrow> \<not> connectionOk w (clusterUrl (env w) c u) \<Longrightarrow>
   updateCluster w c u =
     Dispatch \<lparr>cluster = c, customUrl = u, clusterInfo = None, status = Connecting\<rparr> #
     NewConnection (clusterUrl (env w) c u) # catchBlock w c u ConnectionError"
  by (simp add: updateCluster_def tryBlock_def)

lemma updateCluster_rejected:
  "validURL w u \<Longrightarrow> connectionOk w (clusterUrl (env w) c u) \<Longrightarrow>
   promiseAll w (clusterUrl (env w) c u) = Inl e \<Longrightarrow>
   updateCluster w c u =
     [Dispatch \<lparr>cluster = c, customUrl = u, clusterInfo = None, status = Connecting\<rparr>,
      NewConnection (clusterUrl (env w) c u),
      Fetch (clusterUrl (env w) c u) GetFirstAvailableBlock,
      Fetch (clusterUrl (env w) c u) GetEpochSchedule,
      Fetch (clusterUrl (env w) c u) GetEpochInfo,
      Fetch (clusterUrl (env w) c u) GetGenesisHash,
      Await] @ catchBlock w c u e"
  by (simp add: updateCluster_def tryBlock_def Let_def)

lemma updateCluster_fulfilled:
  "validURL w u \<Longrightarrow> connectionOk w (clusterUrl (env w) c u) \<Longrightarrow>
   promiseAll w (clusterUrl (env w) c u) = Inr info \<Longrightarrow>
   updateCluster w c u =
     [Dispatch \<lparr>cluster = c, customUrl = u, clusterInfo = None, status = Connecting\<rparr>,
      NewConnection (clusterUrl (env w) c u),
      Fetch (clusterUrl (env w) c u) GetFirstAvailableBlock,
      Fetch (clusterUrl (env w) c u) GetEpochSchedule,
      Fetch (clusterUrl (env w) c u) GetEpochInfo,
      Fetch (clusterUrl (env w) c u) GetGenesisHash,
      Await,
      Dispatch \<lparr>cluster = c, customUrl = u, clusterInfo = Some info, status = Connected\<rparr>]"
  by (simp add: updateCluster_def tryBlock_def Let_def)

lemma dispatched_append: "dispatched (xs @ ys) = dispatched xs @ dispatched ys"
  by (induction xs rule: dispatched.induct) simp_all

lemma dispatched_catchBlock:
  "dispatched (catchBlock w c u e) =
     [\<lparr>cluster = c, customUrl = u, clusterInfo = None, status = Failure\<rparr>]"
  by (simp add: catchBlock_def)

lemma network_catchBlock: "filter isNetworkCall (catchBlock w c u e) = []"
  by (simp add: catchBlock_def)

lemma updateCluster_dispatched:
  "dispatched (updateCluster w c u) =
     \<lparr>cluster = c, customUrl = u, clusterInfo = None, status = Connecting\<rparr> #
     (case snd (tryBlock w c u) of
        Inl e \<Rightarrow> [\<lparr>cluster = c, customUrl = u, clusterInfo = None, status = Failure\<rparr>]
      | Inr info \<Rightarrow>
          [\<lparr>cluster = c, customUrl = u, clusterInfo = Some info, status = Connected\<rparr>])"
  by (simp add: updateCluster_def tryBlock_def Let_def dispatched_append dispatched_catchBlock
           split: sum.split)

lemma dispatched_info:
  "a \<in> set (dispatched (updateCluster w c u)) \<Longrightarrow> status a \<noteq> Connected \<Longrightarrow>
   clusterInfo a = None"
  by (auto simp add: updateCluster_dispatched split: sum.splits)

lemma tryBlock_failure_reports:
  "snd (tryBlock w c u) = Inl e \<Longrightarrow>
   filter isReport (updateCluster w c u) =
     (if c = Custom then [] else [ReportError e (clusterUrl (env w) c u)])"
  by (auto simp add: updateCluster_def tryBlock_def Let_def catchBlock_def
           split: if_splits)

lemma failure_dispatched:
  "\<lparr>cluster = c, customUrl = u, clusterInfo = None, status = Failure\<rparr>
     \<in> set (dispatched (updateCluster w c u)) \<Longrightarrow> \<exists>e. snd (tryBlock w c u) = Inl e"
  by (auto simp add: updateCluster_dispatched split: sum.splits)

subsection \<open>The claims\<close>

text \<open>
  C1. For an action with status Connected or Failure: when its (cluster, customUrl) pair
  differs from the pair of the current state, the reducer returns the current state
  unchanged (the stale result is dropped); when the pair is the same, the action is the
  new state.
\<close>

theorem clusterReducer_drops_stale_result:
  assumes "status a = Connected \<or> status a = Failure"
  shows "((cluster a, customUrl a) \<noteq> (cluster s, customUrl s) \<longrightarrow> clusterReducer s a = s) \<and>
         ((cluster a, customUrl a) = (cluster s, customUrl s) \<longrightarrow> clusterReducer s a = a)"
proof -
  from assms have "status a \<noteq> Connecting" by auto
  then show ?thesis by (auto simp add: clusterReducer_result)
qed

theorem clusterReducer_drops_stale_result_witness:
  "(status \<lparr>cluster = MainnetBeta, customUrl = ''http://localhost:8899'',
            clusterInfo = None::(nat, nat) ClusterInfo option, status = Failure\<rparr> = Connected \<or>
    status \<lparr>cluster = MainnetBeta, customUrl = ''http://localhost:8899'',
            clusterInfo = None::(nat, nat) ClusterInfo option, status = Failure\<rparr> = Failure) \<and>
   (MainnetBeta, ''http://localhost:8899'') \<noteq> (Testnet, ''http://localhost:8899'') \<and>
   clusterReducer
     \<lparr>cluster = Testnet, customUrl = ''http://localhost:8899'',
      clusterInfo = None, status = Connecting\<rparr>
     \<lparr>cluster = MainnetBeta, customUrl = ''http://localhost:8899'',
      clusterInfo = None::(nat, nat) ClusterInfo option, status = Failure\<rparr> =
     \<lparr>cluster = Testnet, customUrl = ''http://localhost:8899'',
      clusterInfo = None, status = Connecting\<rparr> \<and>
   clusterReducer
     \<lparr>cluster = MainnetBeta, customUrl = ''http://localhost:8899'',
      clusterInfo = None, status = Connecting\<rparr>
     \<lparr>cluster = MainnetBeta, customUrl = ''http://localhost:8899'',
      clusterInfo = None::(nat, nat) ClusterInfo option, status = Failure\<rparr> =
     \<lparr>cluster = MainnetBeta, customUrl = ''http://localhost:8899'',
      clusterInfo = None, status = Failure\<rparr>"
  using clusterReducer_drops_stale_result
    [of "\<lparr>cluster = MainnetBeta, customUrl = ''http://localhost:8899'',
          clusterInfo = None::(nat, nat) ClusterInfo option, status = Failure\<rparr>"
        "\<lparr>cluster = Testnet, customUrl = ''http://localhost:8899'',
          clusterInfo = None, status = Connecting\<rparr>"]
    clusterReducer_drops_stale_result
    [of "\<lparr>cluster = MainnetBeta, customUrl = ''http://localhost:8899'',
          clusterInfo = None::(nat, nat) ClusterInfo option, status = Failure\<rparr>"
        "\<lparr>cluster = MainnetBeta, customUrl = ''http://localhost:8899'',
          clusterInfo = None, status = Connecting\<rparr>"]
  by simp

text \<open>
  C2. On the Custom cluster with a customUrl that \<^verbatim>\<open>new URL\<close> rejects, the attempt
  dispatches Connecting and then Failure and makes no other call: the client's
  constructor is not called and none of the four fetches is issued.
\<close>

theorem updateCluster_malformed_custom_url:
  assumes "\<not> validURL w u"
  shows "updateCluster w Custom u =
           [Dispatch \<lparr>cluster = Custom, customUrl = u, clusterInfo = None, status = Connecting\<rparr>,
            Dispatch \<lparr>cluster = Custom, customUrl = u, clusterInfo = None, status = Failure\<rparr>] \<and>
         filter isNetworkCall (updateCluster w Custom u) = []"
  using assms by (simp add: updateCluster_invalid catchBlock_def)

theorem updateCluster_malformed_custom_url_witness:
  "\<not> validURL sampleWorld ''not a url'' \<and>
   updateCluster sampleWorld Custom ''not a url'' =
     [Dispatch \<lparr>cluster = Custom, customUrl = ''not a url'', clusterInfo = None,
                status = Connecting\<rparr>,
      Dispatch \<lparr>cluster = Custom, customUrl = ''not a url'', clusterInfo = None,
                status = Failure\<rparr>] \<and>
   filter isNetworkCall (updateCluster sampleWorld Custom ''not a url'') = []"
proof -
  have h: "\<not> validURL sampleWorld ''not a url''"
    by (simp add: sampleWorld_def)
  from h updateCluster_malformed_custom_url [OF h] show ?thesis by simp
qed

text \<open>
  C3. When a connect attempt fails (it dispatches Failure), reportError is called if
  and only if the cluster is not Custom: never on Custom, once on MainnetBeta and on
  Testnet, with the resolved endpoint as context.
\<close>

theorem updateCluster_reports_unless_custom:
  assumes "\<lparr>cluster = c, customUrl = u, clusterInfo = None, status = Failure\<rparr>
             \<in> set (dispatched (updateCluster w c u))"
  shows "(c = Custom \<longrightarrow> filter isReport (updateCluster w c u) = []) \<and>
         (c \<noteq> Custom \<longrightarrow>
            (\<exists>e. filter isReport (updateCluster w c u) =
                    [ReportError e (clusterUrl (env w) c u)]))"
proof -
  from failure_dispatched [OF assms] obtain e where "snd (tryBlock w c u) = Inl e" ..
  from tryBlock_failure_reports [OF this] show ?thesis by (cases "c = Custom") simp_all
qed

theorem updateCluster_reports_unless_custom_witness:
  "\<lparr>cluster = Testnet, customUrl = ''http://localhost:8899'', clusterInfo = None,
     status = Failure\<rparr>
     \<in> set (dispatched (updateCluster sampleWorld Testnet ''http://localhost:8899'')) \<and>
   filter isReport (updateCluster sampleWorld Testnet ''http://localhost:8899'') =
     [ReportError FetchRejected ''https://explorer-api-testnet.bbachain.com''] \<and>
   \<lparr>cluster = Custom, customUrl = ''not a url'', clusterInfo = None, status = Failure\<rparr>
     \<in> set (dispatched (updateCluster sampleWorld Custom ''not a url'')) \<and>
   filter isReport (updateCluster sampleWorld Custom ''not a url'') = []"
proof -
  have t: "\<lparr>cluster = Testnet, customUrl = ''http://localhost:8899'', clusterInfo = None,
             status = Failure\<rparr>
             \<in> set (dispatched (updateCluster sampleWorld Testnet ''http://localhost:8899''))"
    by (simp add: updateCluster_dispatched tryBlock_def Let_def promiseAll_def clusterUrl_def
          modifyUrl_TESTNET sampleWorld_def sampleEnv_def)
  have c: "\<lparr>cluster = Custom, customUrl = ''not a url'', clusterInfo = None, status = Failure\<rparr>
             \<in> set (dispatched (updateCluster sampleWorld Custom ''not a url''))"
    by (simp add: updateCluster_dispatched tryBlock_def sampleWorld_def)
  have r: "filter isReport (updateCluster sampleWorld Testnet ''http://localhost:8899'') =
             [ReportError FetchRejected ''https://explorer-api-testnet.bbachain.com'']"
    by (simp add: updateCluster_def tryBlock_def Let_def promiseAll_def clusterUrl_def
          catchBlock_def modifyUrl_TESTNET sampleWorld_def sampleEnv_def)
  from t c r updateCluster_reports_unless_custom [OF t] updateCluster_reports_unless_custom [OF c]
  show ?thesis by simp
qed

text \<open>
  C4. clusterUrl returns customUrl itself for Custom; for MainnetBeta and for Testnet
  it returns the cluster's environment variable when that is set, and otherwise the
  built-in default, unchanged on the host localhost and with the segment api replaced
  by explorer-api on every other host.
\<close>

theorem clusterUrl_resolution:
  "clusterUrl e Custom u = u \<and>
   clusterUrl e MainnetBeta u =
     (case REACT_APP_MAINNET_RPC_URL e of
        Some v \<Rightarrow> v
      | None \<Rightarrow>
          if hostname e = ''localhost'' then ''https://api-mainnet.bbachain.com''
          else ''https://explorer-api-mainnet.bbachain.com'') \<and>
   clusterUrl e Testnet u =
     (case REACT_APP_TESTNET_RPC_URL e of
        Some v \<Rightarrow> v
      | None \<Rightarrow>
          if hostname e = ''localhost'' then ''https://api-testnet.bbachain.com''
          else ''https://explorer-api-testnet.bbachain.com'')"
  by (simp add: clusterUrl_def modifyUrl_MAINNET modifyUrl_TESTNET split: option.split)

theorem clusterUrl_resolution_witness:
  "clusterUrl sampleEnv Custom ''http://10.0.0.1:8899'' = ''http://10.0.0.1:8899'' \<and>
   clusterUrl sampleEnv MainnetBeta ''http://10.0.0.1:8899'' =
     ''https://explorer-api-mainnet.bbachain.com'' \<and>
   clusterUrl (sampleEnv\<lparr>hostname := ''localhost''\<rparr>) Testnet ''http://10.0.0.1:8899'' =
     ''https://api-testnet.bbachain.com'' \<and>
   clusterUrl (sampleEnv\<lparr>REACT_APP_TESTNET_RPC_URL := Some ''https://rpc.example.org''\<rparr>)
     Testnet ''http://10.0.0.1:8899'' = ''https://rpc.example.org''"
  using clusterUrl_resolution [of sampleEnv "''http://10.0.0.1:8899''"]
    clusterUrl_resolution [of "sampleEnv\<lparr>hostname := ''localhost''\<rparr>" "''http://10.0.0.1:8899''"]
    clusterUrl_resolution
      [of "sampleEnv\<lparr>REACT_APP_TESTNET_RPC_URL := Some ''https://rpc.example.org''\<rparr>"
          "''http://10.0.0.1:8899''"]
  by (simp add: sampleEnv_def)

text \<open>
  C5. When the URL is well-formed, the client is constructed and all four fetches
  resolve, the attempt dispatches Connecting and then, last of all, a state with status
  Connected whose clusterInfo holds the four fetched values.
\<close>

theorem updateCluster_success:
  assumes "validURL w u" and "connectionOk w (clusterUrl (env w) c u)"
    and "getFirstAvailableBlock w (clusterUrl (env w) c u) = Some fab"
    and "getEpochSchedule w (clusterUrl (env w) c u) = Some es"
    and "getEpochInfo w (clusterUrl (env w) c u) = Some ei"
    and "getGenesisHash w (clusterUrl (env w) c u) = Some gh"
  shows "dispatched (updateCluster w c u) =
           [\<lparr>cluster = c, customUrl = u, clusterInfo = None, status = Connecting\<rparr>,
            \<lparr>cluster = c, customUrl = u,
             clusterInfo = Some \<lparr>firstAvailableBlock = fab, epochSchedule = es,
                                 epochInfo = ei, genesisHash = gh\<rparr>,
             status = Connected\<rparr>] \<and>
         last (updateCluster w c u) =
           Dispatch \<lparr>cluster = c, customUrl = u,
             clusterInfo = Some \<lparr>firstAvailableBlock = fab, epochSchedule = es,
                                 epochInfo = ei, genesisHash = gh\<rparr>,
             status = Connected\<rparr>"
proof -
  from assms(3-6) have "promiseAll w (clusterUrl (env w) c u) =
      Inr \<lparr>firstAvailableBlock = fab, epochSchedule = es, epochInfo = ei, genesisHash = gh\<rparr>"
    by (rule promiseAll_Inr)
  from updateCluster_fulfilled [OF assms(1,2) this] show ?thesis by simp
qed

theorem updateCluster_success_witness:
  "validURL sampleWorld ''http://localhost:8899'' \<and>
   connectionOk sampleWorld ''https://explorer-api-mainnet.bbachain.com'' \<and>
   getFirstAvailableBlock sampleWorld ''https://explorer-api-mainnet.bbachain.com'' = Some 0 \<and>
   getEpochSchedule sampleWorld ''https://explorer-api-mainnet.bbachain.com'' = Some 1 \<and>
   getEpochInfo sampleWorld ''https://explorer-api-mainnet.bbachain.com'' = Some 2 \<and>
   getGenesisHash sampleWorld ''https://explorer-api-mainnet.bbachain.com'' = Some ''abc'' \<and>
   dispatched (updateCluster sampleWorld MainnetBeta ''http://localhost:8899'') =
     [\<lparr>cluster = MainnetBeta, customUrl = ''http://localhost:8899'', clusterInfo = None,
       status = Connecting\<rparr>,
      \<lparr>cluster = MainnetBeta, customUrl = ''http://localhost:8899'',
       clusterInfo = Some \<lparr>firstAvailableBlock = 0, epochSchedule = 1, epochInfo = 2,
                           genesisHash = ''abc''\<rparr>,
       status = Connected\<rparr>]"
proof -
  have ep: "clusterUrl (env sampleWorld) MainnetBeta ''http://localhost:8899'' =
      ''https://explorer-api-mainnet.bbachain.com''"
    by (simp add: clusterUrl_def modifyUrl_MAINNET sampleWorld_def sampleEnv_def)
  have v: "validURL sampleWorld ''http://localhost:8899''"
    by (simp add: sampleWorld_def)
  have k: "connectionOk sampleWorld
             (clusterUrl (env sampleWorld) MainnetBeta ''http://localhost:8899'')"
    by (simp add: sampleWorld_def)
  have f1: "getFirstAvailableBlock sampleWorld
              (clusterUrl (env sampleWorld) MainnetBeta ''http://localhost:8899'') = Some 0"
    by (simp add: sampleWorld_def)
  have f2: "getEpochSchedule sampleWorld
              (clusterUrl (env sampleWorld) MainnetBeta ''http://localhost:8899'') = Some 1"
    by (simp add: sampleWorld_def)
  have f3: "getEpochInfo sampleWorld
              (clusterUrl (env sampleWorld) MainnetBeta ''http://localhost:8899'') = Some 2"
    unfolding ep by (simp add: sampleWorld_def)
  have f4: "getGenesisHash sampleWorld
              (clusterUrl (env sampleWorld) MainnetBeta ''http://localhost:8899'') = Some ''abc''"
    by (simp add: sampleWorld_def)
  from v k f1 f2 f3 f4 updateCluster_success [OF v k f1 f2 f3 f4] show ?thesis
    unfolding ep by simp
qed

text \<open>
  C6. In every state reachable from the initial state through the reducer and the
  actions the connect attempts dispatch, clusterInfo is present only when the status is
  Connected: a state with status Connecting or Failure carries none.
\<close>

theorem reachable_clusterInfo_only_when_Connected:
  assumes "reachable s"
  shows "(clusterInfo s \<noteq> None \<longrightarrow> status s = Connected) \<and>
         (status s = Connecting \<or> status s = Failure \<longrightarrow> clusterInfo s = None)"
proof -
  from assms have inv: "status s \<noteq> Connected \<longrightarrow> clusterInfo s = None"
  proof (induction rule: reachable.induct)
    case init
    show ?case by (simp add: initialState_def)
  next
    case (step s a w c u)
    from clusterReducer_cases [of s a] show ?case
    proof
      assume "clusterReducer s a = s"
      with step.IH show ?thesis by simp
    next
      assume "clusterReducer s a = a"
      with dispatched_info [OF step.hyps(2)] show ?thesis by simp
    qed
  qed
  then show ?thesis by auto
qed

theorem reachable_clusterInfo_only_when_Connected_witness:
  "reachable (initialState :: (nat, nat) State) \<and>
   status (initialState :: (nat, nat) State) = Connecting \<and>
   clusterInfo (initialState :: (nat, nat) State) = None \<and>
   reachable
     \<lparr>cluster = MainnetBeta, customUrl = ''http://localhost:8899'',
      clusterInfo = Some \<lparr>firstAvailableBlock = 0, epochSchedule = 1::nat,
                          epochInfo = 2::nat, genesisHash = ''abc''\<rparr>,
      status = Connected\<rparr> \<and>
   reachable
     \<lparr>cluster = Testnet, customUrl = ''http://localhost:8899'',
      clusterInfo = None :: (nat, nat) ClusterInfo option, status = Failure\<rparr>"
proof -
  let ?u = "''http://localhost:8899''"
  let ?ok = "\<lparr>cluster = MainnetBeta, customUrl = ?u,
      clusterInfo = Some \<lparr>firstAvailableBlock = 0, epochSchedule = 1::nat,
                          epochInfo = 2::nat, genesisHash = ''abc''\<rparr>,
      status = Connected\<rparr>"
  let ?tc = "\<lparr>cluster = Testnet, customUrl = ?u,
      clusterInfo = None :: (nat, nat) ClusterInfo option, status = Connecting\<rparr>"
  let ?tf = "\<lparr>cluster = Testnet, customUrl = ?u,
      clusterInfo = None :: (nat, nat) ClusterInfo option, status = Failure\<rparr>"
  have r0: "reachable (initialState :: (nat, nat) State)" by (rule reachable.init)
  have m: "dispatched (updateCluster sampleWorld MainnetBeta ?u) =
      [\<lparr>cluster = MainnetBeta, customUrl = ?u, clusterInfo = None, status = Connecting\<rparr>, ?ok]"
    by (simp add: updateCluster_dispatched tryBlock_def Let_def promiseAll_def clusterUrl_def
          modifyUrl_MAINNET sampleWorld_def sampleEnv_def)
  have t: "dispatched (updateCluster sampleWorld Testnet ?u) = [?tc, ?tf]"
    by (simp add: updateCluster_dispatched tryBlock_def Let_def promiseAll_def clusterUrl_def
          modifyUrl_TESTNET sampleWorld_def sampleEnv_def)
  have "reachable (clusterReducer initialState ?ok)"
    by (rule reachable.step [OF r0, of _ sampleWorld MainnetBeta ?u]) (simp add: m)
  then have r1: "reachable ?ok"
    by (simp add: clusterReducer_def initialState_def DEFAULT_CLUSTER_def DEFAULT_CUSTOM_URL_def)
  have "reachable (clusterReducer ?ok ?tc)"
    by (rule reachable.step [OF r1, of _ sampleWorld Testnet ?u]) (simp add: t)
  then have r2: "reachable ?tc" by (simp add: clusterReducer_def)
  have "reachable (clusterReducer ?tc ?tf)"
    by (rule reachable.step [OF r2, of _ sampleWorld Testnet ?u]) (simp add: t)
  then have r3: "reachable ?tf" by (simp add: clusterReducer_def)
  from r0 r1 r3 reachable_clusterInfo_only_when_Connected [OF r0]
    reachable_clusterInfo_only_when_Connected [OF r1]
    reachable_clusterInfo_only_when_Connected [OF r3]
  show ?thesis by (simp add: initialState_def)
qed

text \<open>
  C7. The reducer returns an action with status Connecting whatever the current state
  is, and the first call of every connect attempt, in every world, is the dispatch of
  such an action for the requested cluster and customUrl: it precedes the URL check,
  every call to the client and the suspension, and it makes the requested pair the
  current state with status Connecting.
\<close>

theorem updateCluster_Connecting_first:
  "(status a = Connecting \<longrightarrow> clusterReducer s a = a) \<and>
   (\<exists>rest. updateCluster w c u =
      Dispatch \<lparr>cluster = c, customUrl = u, clusterInfo = None, status = Connecting\<rparr> # rest) \<and>
   clusterReducer s (hd (dispatched (updateCluster w c u))) =
     \<lparr>cluster = c, customUrl = u, clusterInfo = None, status = Connecting\<rparr>"
  by (simp add: clusterReducer_Connecting updateCluster_dispatched) (simp add: updateCluster_def)

theorem updateCluster_Connecting_first_witness:
  "status \<lparr>cluster = Testnet, customUrl = ''not a url'',
           clusterInfo = None :: (nat, nat) ClusterInfo option, status = Connecting\<rparr> = Connecting \<and>
   clusterReducer
     \<lparr>cluster = MainnetBeta, customUrl = ''http://localhost:8899'',
      clusterInfo = Some \<lparr>firstAvailableBlock = 0, epochSchedule = 1::nat,
                          epochInfo = 2::nat, genesisHash = ''abc''\<rparr>,
      status = Connected\<rparr>
     \<lparr>cluster = Testnet, customUrl = ''not a url'', clusterInfo = None, status = Connecting\<rparr> =
     \<lparr>cluster = Testnet, customUrl = ''not a url'', clusterInfo = None, status = Connecting\<rparr> \<and>
   hd (updateCluster sampleWorld Testnet ''not a url'') =
     Dispatch \<lparr>cluster = Testnet, customUrl = ''not a url'', clusterInfo = None,
               status = Connecting\<rparr>"
  using updateCluster_Connecting_first
    [of "\<lparr>cluster = Testnet, customUrl = ''not a url'',
          clusterInfo = None :: (nat, nat) ClusterInfo option, status = Connecting\<rparr>"
        "\<lparr>cluster = MainnetBeta, customUrl = ''http://localhost:8899'',
          clusterInfo = Some \<lparr>firstAvailableBlock = 0, epochSchedule = 1::nat,
                              epochInfo = 2::nat, genesisHash = ''abc''\<rparr>,
          status = Connected\<rparr>"
        sampleWorld Testnet "''not a url''"]
  by auto

text \<open>
  C8. With a well-formed URL and a constructed client, all four fetches are issued
  before the one suspension, and when any of the four promises rejects the attempt
  continues in the catch block: it dispatches Connecting and Failure and no state with
  status Connected.
\<close>

theorem updateCluster_fetches_fail_as_unit:
  assumes "validURL w u" and "connectionOk w (clusterUrl (env w) c u)"
    and "getFirstAvailableBlock w (clusterUrl (env w) c u) = None \<or>
         getEpochSchedule w (clusterUrl (env w) c u) = None \<or>
         getEpochInfo w (clusterUrl (env w) c u) = None \<or>
         getGenesisHash w (clusterUrl (env w) c u) = None"
  shows "updateCluster w c u =
           [Dispatch \<lparr>cluster = c, customUrl = u, clusterInfo = None, status = Connecting\<rparr>,
            NewConnection (clusterUrl (env w) c u),
            Fetch (clusterUrl (env w) c u) GetFirstAvailableBlock,
            Fetch (clusterUrl (env w) c u) GetEpochSchedule,
            Fetch (clusterUrl (env w) c u) GetEpochInfo,
            Fetch (clusterUrl (env w) c u) GetGenesisHash,
            Await] @ catchBlock w c u FetchRejected \<and>
         dispatched (updateCluster w c u) =
           [\<lparr>cluster = c, customUrl = u, clusterInfo = None, status = Connecting\<rparr>,
            \<lparr>cluster = c, customUrl = u, clusterInfo = None, status = Failure\<rparr>] \<and>
         filter (\<lambda>a. status a = Connected) (dispatched (updateCluster w c u)) = []"
proof -
  from assms(3) have "promiseAll w (clusterUrl (env w) c u) = Inl FetchRejected"
    by (rule promiseAll_Inl)
  from updateCluster_rejected [OF assms(1,2) this] show ?thesis
    by (simp add: dispatched_append dispatched_catchBlock)
qed

theorem updateCluster_fetches_fail_as_unit_witness:
  "validURL sampleWorld ''http://localhost:8899'' \<and>
   connectionOk sampleWorld ''https://explorer-api-testnet.bbachain.com'' \<and>
   getFirstAvailableBlock sampleWorld ''https://explorer-api-testnet.bbachain.com'' = Some 0 \<and>
   getEpochInfo sampleWorld ''https://explorer-api-testnet.bbachain.com'' = None \<and>
   updateCluster sampleWorld Testnet ''http://localhost:8899'' =
     [Dispatch \<lparr>cluster = Testnet, customUrl = ''http://localhost:8899'', clusterInfo = None,
                status = Connecting\<rparr>,
      NewConnection ''https://explorer-api-testnet.bbachain.com'',
      Fetch ''https://explorer-api-testnet.bbachain.com'' GetFirstAvailableBlock,
      Fetch ''https://explorer-api-testnet.bbachain.com'' GetEpochSchedule,
      Fetch ''https://explorer-api-testnet.bbachain.com'' GetEpochInfo,
      Fetch ''https://explorer-api-testnet.bbachain.com'' GetGenesisHash,
      Await,
      ReportError FetchRejected ''https://explorer-api-testnet.bbachain.com'',
      Dispatch \<lparr>cluster = Testnet, customUrl = ''http://localhost:8899'', clusterInfo = None,
                status = Failure\<rparr>]"
proof -
  have ep: "clusterUrl (env sampleWorld) Testnet ''http://localhost:8899'' =
      ''https://explorer-api-testnet.bbachain.com''"
    by (simp add: clusterUrl_def modifyUrl_TESTNET sampleWorld_def sampleEnv_def)
  have v: "validURL sampleWorld ''http://localhost:8899''"
    by (simp add: sampleWorld_def)
  have k: "connectionOk sampleWorld
             (clusterUrl (env sampleWorld) Testnet ''http://localhost:8899'')"
    by (simp add: sampleWorld_def)
  have f1: "getFirstAvailableBlock sampleWorld ''https://explorer-api-testnet.bbachain.com'' =
      Some 0"
    by (simp add: sampleWorld_def)
  have f3: "getEpochInfo sampleWorld ''https://explorer-api-testnet.bbachain.com'' = None"
    by (simp add: sampleWorld_def)
  have r: "getFirstAvailableBlock sampleWorld
             (clusterUrl (env sampleWorld) Testnet ''http://localhost:8899'') = None \<or>
           getEpochSchedule sampleWorld
             (clusterUrl (env sampleWorld) Testnet ''http://localhost:8899'') = None \<or>
           getEpochInfo sampleWorld
             (clusterUrl (env sampleWorld) Testnet ''http://localhost:8899'') = None \<or>
           getGenesisHash sampleWorld
             (clusterUrl (env sampleWorld) Testnet ''http://localhost:8899'') = None"
    unfolding ep using f3 by simp
  from v k f1 f3 updateCluster_fetches_fail_as_unit [OF v k r] show ?thesis
    unfolding ep by (simp add: catchBlock_def ep)
qed

text \<open>
  C9. Whether the reducer accepts an action with status Connected or Failure depends
  on the (cluster, customUrl) pair alone and not on the status of the current state:
  the action is the result exactly when the pairs are equal, whatever the current
  status is set to. So a Failure action for the pair of a state that is already
  Connected replaces that state.
\<close>

theorem clusterReducer_acceptance_ignores_status:
  assumes "status a = Connected \<or> status a = Failure"
  shows "(clusterReducer s a = a) = (cluster s = cluster a \<and> customUrl s = customUrl a) \<and>
         (clusterReducer (s\<lparr>status := st\<rparr>) a = a) = (clusterReducer s a = a) \<and>
         (status s = Connected \<and> status a = Failure \<and>
          cluster s = cluster a \<and> customUrl s = customUrl a \<longrightarrow>
            clusterReducer s a = a \<and> status (clusterReducer s a) = Failure)"
proof -
  from assms have n: "status a \<noteq> Connecting" by auto
  have 1: "(clusterReducer s a = a) = (cluster s = cluster a \<and> customUrl s = customUrl a)"
    for s :: "('a, 'b) State"
    using n by (auto simp add: clusterReducer_result)
  have 2: "(clusterReducer (s\<lparr>status := st\<rparr>) a = a) = (clusterReducer s a = a)"
    by (simp add: 1)
  have 3: "clusterReducer s a = a" if "cluster s = cluster a \<and> customUrl s = customUrl a"
    using n that by (simp add: clusterReducer_result)
  have 4: "status s = Connected \<and> status a = Failure \<and>
           cluster s = cluster a \<and> customUrl s = customUrl a \<longrightarrow>
             clusterReducer s a = a \<and> status (clusterReducer s a) = Failure"
    using 3 by auto
  from 1 [of s] 2 4 show ?thesis by blast
qed

theorem clusterReducer_acceptance_ignores_status_witness:
  "clusterReducer
     \<lparr>cluster = MainnetBeta, customUrl = ''http://localhost:8899'',
      clusterInfo = Some \<lparr>firstAvailableBlock = 0, epochSchedule = 1::nat,
                          epochInfo = 2::nat, genesisHash = ''abc''\<rparr>,
      status = Connected\<rparr>
     \<lparr>cluster = MainnetBeta, customUrl = ''http://localhost:8899'', clusterInfo = None,
      status = Failure\<rparr> =
     \<lparr>cluster = MainnetBeta, customUrl = ''http://localhost:8899'', clusterInfo = None,
      status = Failure\<rparr>"
  using clusterReducer_acceptance_ignores_status
    [of "\<lparr>cluster = MainnetBeta, customUrl = ''http://localhost:8899'',
          clusterInfo = None :: (nat, nat) ClusterInfo option, status = Failure\<rparr>"
        "\<lparr>cluster = MainnetBeta, customUrl = ''http://localhost:8899'',
          clusterInfo = Some \<lparr>firstAvailableBlock = 0, epochSchedule = 1::nat,
                              epochInfo = 2::nat, genesisHash = ''abc''\<rparr>,
          status = Connected\<rparr>"]
  by simp

text \<open>
  C10. The URL check is made on customUrl for every cluster. With a customUrl that
  \<^verbatim>\<open>new URL\<close> rejects, an attempt on any cluster, MainnetBeta and Testnet included,
  dispatches Connecting and then Failure, does not call the client's constructor and
  issues none of the four fetches, although the endpoint of MainnetBeta and of Testnet
  does not depend on customUrl.
\<close>

theorem updateCluster_validates_customUrl_for_every_cluster:
  assumes "\<not> validURL w u"
  shows "dispatched (updateCluster w c u) =
           [\<lparr>cluster = c, customUrl = u, clusterInfo = None, status = Connecting\<rparr>,
            \<lparr>cluster = c, customUrl = u, clusterInfo = None, status = Failure\<rparr>] \<and>
         filter isNetworkCall (updateCluster w c u) = [] \<and>
         (c \<noteq> Custom \<longrightarrow> clusterUrl (env w) c u = clusterUrl (env w) c u')"
proof -
  have "c \<noteq> Custom \<longrightarrow> clusterUrl (env w) c u = clusterUrl (env w) c u'"
    by (cases c) (simp_all add: clusterUrl_def)
  with assms show ?thesis
    by (simp add: updateCluster_invalid dispatched_catchBlock network_catchBlock)
qed

theorem updateCluster_validates_customUrl_for_every_cluster_witness:
  "\<not> validURL sampleWorld ''not a url'' \<and>
   updateCluster sampleWorld MainnetBeta ''not a url'' =
     [Dispatch \<lparr>cluster = MainnetBeta, customUrl = ''not a url'', clusterInfo = None,
                status = Connecting\<rparr>,
      ReportError InvalidUrl ''https://explorer-api-mainnet.bbachain.com'',
      Dispatch \<lparr>cluster = MainnetBeta, customUrl = ''not a url'', clusterInfo = None,
                status = Failure\<rparr>] \<and>
   filter isNetworkCall (updateCluster sampleWorld MainnetBeta ''not a url'') = [] \<and>
   clusterUrl (env sampleWorld) MainnetBeta ''not a url'' =
     clusterUrl (env sampleWorld) MainnetBeta ''http://localhost:8899''"
proof -
  have h: "\<not> validURL sampleWorld ''not a url''"
    by (simp add: sampleWorld_def)
  have t: "updateCluster sampleWorld MainnetBeta ''not a url'' =
     [Dispatch \<lparr>cluster = MainnetBeta, customUrl = ''not a url'', clusterInfo = None,
                status = Connecting\<rparr>,
      ReportError InvalidUrl ''https://explorer-api-mainnet.bbachain.com'',
      Dispatch \<lparr>cluster = MainnetBeta, customUrl = ''not a url'', clusterInfo = None,
                status = Failure\<rparr>]"
    by (simp add: updateCluster_def tryBlock_def catchBlock_def clusterUrl_def modifyUrl_MAINNET
          sampleWorld_def sampleEnv_def)
  from h t updateCluster_validates_customUrl_for_every_cluster
    [OF h, of MainnetBeta "''http://localhost:8899''"]
  show ?thesis by simp
qed

end
